theory Spec2Isabelle
  imports Complex_Main "HOL-Library.Sublist"
begin

section \<open>Configuration (package config)\<close>

text \<open>
  The two configuration structs of package \<open>config\<close>. Go's \<open>int\<close> fields are
  modelled as \<^typ>\<open>int\<close>: the code only compares them, negates a positive value and
  assigns the constant 1, none of which can leave the 64-bit range.
  The fields of \<open>LavaConfig\<close> carry the prefix \<open>Lava\<close> where the name is also a
  field of \<open>GHEConfig\<close>.
\<close>

record GHEConfig =
  Token :: string
  BaseURL :: string
  Concurrency :: int
  RepositorySizeLimit :: int
  IncludeArchived :: bool
  IncludeEmpty :: bool
  IncludeForks :: bool
  IncludeTemplates :: bool
  IncludeDisabled :: bool
  MinLastActivityDays :: int

record LavaConfig =
  LavaToken :: string
  LavaBaseURL :: string
  LavaConcurrency :: int
  BinaryPath :: string
  CheckImage :: string
  ResultsPath :: string

definition GHEAPIPath :: string where
  "GHEAPIPath = ''/api/v3/''"

section \<open>Client construction (packages github and lava)\<close>

datatype github_error =
    GH_ErrTokenRequired
  | GH_ErrAPIBaseURLRequired
  | GH_ErrParseURL string
  | GH_ErrAuthenticate string

text \<open>
  \<open>github.NewClient\<close>. The two library calls it makes are parameters: \<open>url_Parse\<close> gives
  the error text of \<open>url.Parse\<close> (\<open>None\<close> when the URL parses), \<open>users_Get\<close> the error
  text of the identity request made with the token against the parsed URL. The client
  keeps the (possibly adjusted) configuration; its other fields are handles.
\<close>

definition github_NewClient ::
  "(string \<Rightarrow> string option) \<Rightarrow> (string \<Rightarrow> string \<Rightarrow> string option) \<Rightarrow>
   GHEConfig \<Rightarrow> github_error + GHEConfig" where
  "github_NewClient url_Parse users_Get cfg =
     (if Token cfg = [] then Inl GH_ErrTokenRequired
      else if BaseURL cfg = [] then Inl GH_ErrAPIBaseURLRequired
      else
        let cfg1 = (if Concurrency cfg \<le> 0 then cfg\<lparr>Concurrency := 1\<rparr> else cfg) in
        (case url_Parse (BaseURL cfg1 @ GHEAPIPath) of
           Some e \<Rightarrow> Inl (GH_ErrParseURL e)
         | None \<Rightarrow>
            (case users_Get (Token cfg1) (BaseURL cfg1 @ GHEAPIPath) of
               Some e \<Rightarrow> Inl (GH_ErrAuthenticate e)
             | None \<Rightarrow> Inr cfg1)))"

datatype lava_error =
    ErrTokenRequired
  | ErrAPIBaseURLRequired
  | ErrLavaBinaryNotFound
  | ErrLavaCheckImageRequired

text \<open>
  \<open>lava.NewClient\<close>; \<open>lookPath\<close> says whether \<open>exec.LookPath\<close> finds the binary.
\<close>

definition lava_NewClient :: "(string \<Rightarrow> bool) \<Rightarrow> LavaConfig \<Rightarrow> lava_error + LavaConfig" where
  "lava_NewClient lookPath cfg =
     (if LavaToken cfg = [] then Inl ErrTokenRequired
      else if LavaBaseURL cfg = [] then Inl ErrAPIBaseURLRequired
      else
        let cfg1 = (if LavaConcurrency cfg \<le> 0 then cfg\<lparr>LavaConcurrency := 1\<rparr> else cfg) in
        if \<not> lookPath (BinaryPath cfg1) then Inl ErrLavaBinaryNotFound
        else if CheckImage cfg1 = [] then Inl ErrLavaCheckImageRequired
        else Inr cfg1)"

section \<open>Concurrency ceilings\<close>

text \<open>
  C6. Whenever either constructor returns a client, the concurrency ceiling the client
  holds is 1 if the configured value was at most 0 and the configured value otherwise;
  in both cases it is at least 1, and no other field of the configuration changes.
\<close>

theorem NewClient_concurrency_floor:
  "(github_NewClient url_Parse users_Get gcfg = Inr gc \<longrightarrow>
      Concurrency gc = (if Concurrency gcfg \<le> 0 then 1 else Concurrency gcfg) \<and>
      1 \<le> Concurrency gc \<and> gc = gcfg\<lparr>Concurrency := Concurrency gc\<rparr>) \<and>
   (lava_NewClient lookPath lcfg = Inr lc \<longrightarrow>
      LavaConcurrency lc = (if LavaConcurrency lcfg \<le> 0 then 1 else LavaConcurrency lcfg) \<and>
      1 \<le> LavaConcurrency lc \<and> lc = lcfg\<lparr>LavaConcurrency := LavaConcurrency lc\<rparr>)"
proof (intro conjI impI)
  assume "github_NewClient url_Parse users_Get gcfg = Inr gc"
  then have g: "gc = (if Concurrency gcfg \<le> 0 then gcfg\<lparr>Concurrency := 1\<rparr> else gcfg)"
    by (auto simp: github_NewClient_def Let_def split: if_splits option.splits)
  show "Concurrency gc = (if Concurrency gcfg \<le> 0 then 1 else Concurrency gcfg)"
    using g by simp
  show "1 \<le> Concurrency gc"
    using g by simp
  show "gc = gcfg\<lparr>Concurrency := Concurrency gc\<rparr>"
    using g by simp
next
  assume "lava_NewClient lookPath lcfg = Inr lc"
  then have l: "lc = (if LavaConcurrency lcfg \<le> 0 then lcfg\<lparr>LavaConcurrency := 1\<rparr> else lcfg)"
    by (auto simp: lava_NewClient_def Let_def split: if_splits)
  show "LavaConcurrency lc = (if LavaConcurrency lcfg \<le> 0 then 1 else LavaConcurrency lcfg)"
    using l by simp
  show "1 \<le> LavaConcurrency lc"
    using l by simp
  show "lc = lcfg\<lparr>LavaConcurrency := LavaConcurrency lc\<rparr>"
    using l by simp
qed

theorem NewClient_concurrency_floor_witness:
  "github_NewClient (\<lambda>u. None) (\<lambda>t u. None)
      \<lparr>Token = ''t'', BaseURL = ''https://ghe.example'', Concurrency = - 3,
       RepositorySizeLimit = 3145728, IncludeArchived = False, IncludeEmpty = False,
       IncludeForks = False, IncludeTemplates = False, IncludeDisabled = False,
       MinLastActivityDays = 0\<rparr>
     = Inr \<lparr>Token = ''t'', BaseURL = ''https://ghe.example'', Concurrency = 1,
       RepositorySizeLimit = 3145728, IncludeArchived = False, IncludeEmpty = False,
       IncludeForks = False, IncludeTemplates = False, IncludeDisabled = False,
       MinLastActivityDays = 0\<rparr> \<and>
   lava_NewClient (\<lambda>p. True)
      \<lparr>LavaToken = ''t'', LavaBaseURL = ''https://ghe.example'', LavaConcurrency = 0,
       BinaryPath = ''/usr/bin/lava'', CheckImage = ''img'', ResultsPath = ''''\<rparr>
     = Inr \<lparr>LavaToken = ''t'', LavaBaseURL = ''https://ghe.example'', LavaConcurrency = 1,
       BinaryPath = ''/usr/bin/lava'', CheckImage = ''img'', ResultsPath = ''''\<rparr> \<and>
   (1::int) \<le> 1"
proof -
  let ?g = "\<lparr>Token = ''t'', BaseURL = ''https://ghe.example'', Concurrency = - 3,
       RepositorySizeLimit = 3145728, IncludeArchived = False, IncludeEmpty = False,
       IncludeForks = False, IncludeTemplates = False, IncludeDisabled = False,
       MinLastActivityDays = 0\<rparr>"
  let ?g' = "?g\<lparr>Concurrency := 1\<rparr>"
  let ?l = "\<lparr>LavaToken = ''t'', LavaBaseURL = ''https://ghe.example'', LavaConcurrency = 0,
       BinaryPath = ''/usr/bin/lava'', CheckImage = ''img'', ResultsPath = ''''\<rparr>"
  let ?l' = "?l\<lparr>LavaConcurrency := 1\<rparr>"
  have g: "github_NewClient (\<lambda>u. None) (\<lambda>t u. None) ?g = Inr ?g'"
    by (simp add: github_NewClient_def)
  have l: "lava_NewClient (\<lambda>p. True) ?l = Inr ?l'"
    by (simp add: lava_NewClient_def)
  from NewClient_concurrency_floor
    [of "\<lambda>u. None" "\<lambda>t u. None" ?g ?g' "\<lambda>p. True" ?l ?l'] g l
  show ?thesis by simp
qed

section \<open>Repository filter (orgRepositories)\<close>

text \<open>
  The fields of \<open>gh.Repository\<close> that the filter reads are pointers; \<open>None\<close> is the
  nil pointer. An instant is a point on the time line, \<open>Before\<close> is \<open><\<close>.
\<close>

type_synonym time = int

record gh_Repository =
  Size :: "int option"
  Archived :: "bool option"
  Disabled :: "bool option"
  Fork :: "bool option"
  IsTemplate :: "bool option"
  UpdatedAt :: "time option"
  PushedAt :: "time option"
  CloneURL :: "string option"

text \<open>
  The seven conditions of the loop body in \<open>orgRepositories\<close>, one definition per
  \<open>if\<close>, in the order of the source. \<open>p != nil && *p ...\<close> reads the pointer only
  when it is not nil.
\<close>

definition tooBig :: "GHEConfig \<Rightarrow> gh_Repository \<Rightarrow> bool" where
  "tooBig cfg repo = (case Size repo of None \<Rightarrow> False | Some s \<Rightarrow> s > RepositorySizeLimit cfg)"

definition isEmpty :: "GHEConfig \<Rightarrow> gh_Repository \<Rightarrow> bool" where
  "isEmpty cfg repo =
     ((case Size repo of None \<Rightarrow> False | Some s \<Rightarrow> s = 0) \<and> \<not> IncludeEmpty cfg)"

definition isArchived :: "GHEConfig \<Rightarrow> gh_Repository \<Rightarrow> bool" where
  "isArchived cfg repo =
     ((case Archived repo of None \<Rightarrow> False | Some b \<Rightarrow> b) \<and> \<not> IncludeArchived cfg)"

definition isDisabled :: "GHEConfig \<Rightarrow> gh_Repository \<Rightarrow> bool" where
  "isDisabled cfg repo =
     ((case Disabled repo of None \<Rightarrow> False | Some b \<Rightarrow> b) \<and> \<not> IncludeDisabled cfg)"

definition isFork :: "GHEConfig \<Rightarrow> gh_Repository \<Rightarrow> bool" where
  "isFork cfg repo =
     ((case Fork repo of None \<Rightarrow> False | Some b \<Rightarrow> b) \<and> \<not> IncludeForks cfg)"

definition isTemplate :: "GHEConfig \<Rightarrow> gh_Repository \<Rightarrow> bool" where
  "isTemplate cfg repo =
     ((case IsTemplate repo of None \<Rightarrow> False | Some b \<Rightarrow> b) \<and> \<not> IncludeTemplates cfg)"

text \<open>
  The activity check. \<open>AddDate\<close> is \<open>time.Time.AddDate\<close> (calendar arithmetic of the
  standard library, a parameter here) and \<open>now\<close> the value of \<open>time.Now()\<close>.
\<close>

definition minLastActivityTS :: "(time \<Rightarrow> int \<Rightarrow> int \<Rightarrow> int \<Rightarrow> time) \<Rightarrow> time \<Rightarrow> GHEConfig \<Rightarrow> time" where
  "minLastActivityTS AddDate now cfg = AddDate now 0 0 (- MinLastActivityDays cfg)"

definition isUpdatedInactive :: "time \<Rightarrow> gh_Repository \<Rightarrow> bool" where
  "isUpdatedInactive ts repo = (case UpdatedAt repo of None \<Rightarrow> False | Some t \<Rightarrow> t < ts)"

definition isPushedInactive :: "time \<Rightarrow> gh_Repository \<Rightarrow> bool" where
  "isPushedInactive ts repo = (case PushedAt repo of None \<Rightarrow> False | Some t \<Rightarrow> t < ts)"

definition isInactive ::
  "(time \<Rightarrow> int \<Rightarrow> int \<Rightarrow> int \<Rightarrow> time) \<Rightarrow> time \<Rightarrow> GHEConfig \<Rightarrow> gh_Repository \<Rightarrow> bool" where
  "isInactive AddDate now cfg repo =
     (if MinLastActivityDays cfg > 0
      then isUpdatedInactive (minLastActivityTS AddDate now cfg) repo \<and>
           isPushedInactive (minLastActivityTS AddDate now cfg) repo
      else False)"

text \<open>
  What one iteration of the loop does with a repository: skip it, under the key of
  \<open>repoMetrics\<close> that is incremented, or append \<open>*repo.CloneURL\<close> to \<open>allRepos\<close>.
  Dereferencing a nil \<open>CloneURL\<close> panics.
\<close>

datatype skip_reason =
    SkipTooBig | SkipEmpty | SkipArchived | SkipDisabled | SkipFork | SkipTemplate | SkipInactive

datatype verdict = Skipped skip_reason | Selected string | NilDereference

definition classify ::
  "(time \<Rightarrow> int \<Rightarrow> int \<Rightarrow> int \<Rightarrow> time) \<Rightarrow> time \<Rightarrow> GHEConfig \<Rightarrow> gh_Repository \<Rightarrow> verdict" where
  "classify AddDate now cfg repo =
     (if tooBig cfg repo then Skipped SkipTooBig
      else if isEmpty cfg repo then Skipped SkipEmpty
      else if isArchived cfg repo then Skipped SkipArchived
      else if isDisabled cfg repo then Skipped SkipDisabled
      else if isFork cfg repo then Skipped SkipFork
      else if isTemplate cfg repo then Skipped SkipTemplate
      else if isInactive AddDate now cfg repo then Skipped SkipInactive
      else (case CloneURL repo of None \<Rightarrow> NilDereference | Some u \<Rightarrow> Selected u))"






subsection \<open>Concrete inputs\<close>

text \<open>
  The default policy of \<open>config.GHEConfig\<close> (the \<open>envDefault\<close> tags), the repository of
  the specification's scenario, a repository with no metadata, and day arithmetic on
  instants counted in seconds, which is what \<open>AddDate\<close> does in UTC.
\<close>

definition policy_defaults :: GHEConfig where
  "policy_defaults =
     \<lparr>Token = ''t'', BaseURL = ''https://ghe.example'', Concurrency = 15,
      RepositorySizeLimit = 3145728, IncludeArchived = False, IncludeEmpty = False,
      IncludeForks = False, IncludeTemplates = False, IncludeDisabled = False,
      MinLastActivityDays = 0\<rparr>"

definition repo1 :: gh_Repository where
  "repo1 =
     \<lparr>Size = Some 500, Archived = Some False, Disabled = Some False, Fork = Some False,
      IsTemplate = Some False, UpdatedAt = Some 1000, PushedAt = Some 2000,
      CloneURL = Some ''https://ghe.example/org1/repo1''\<rparr>"

definition utc_AddDate :: "time \<Rightarrow> int \<Rightarrow> int \<Rightarrow> int \<Rightarrow> time" where
  "utc_AddDate t y m d = t + d * 86400"


subsection \<open>Properties of the filter\<close>



text \<open>
  C4. The activity condition holds exactly when the threshold in days is positive and
  both timestamps are present and lie before \<open>now\<close> moved back by that many days.
  A repository is skipped as inactive only then: with a positive threshold and at most
  one stale timestamp it is not skipped as inactive, and with threshold 0 never.
\<close>

theorem inactive_needs_both_stale:
  "(isInactive A now cfg repo \<longleftrightarrow>
      0 < MinLastActivityDays cfg \<and>
      (\<exists>u p. UpdatedAt repo = Some u \<and> PushedAt repo = Some p \<and>
             u < A now 0 0 (- MinLastActivityDays cfg) \<and>
             p < A now 0 0 (- MinLastActivityDays cfg))) \<and>
   (classify A now cfg repo = Skipped SkipInactive \<longrightarrow> isInactive A now cfg repo) \<and>
   (0 < MinLastActivityDays cfg \<and>
    \<not> (isUpdatedInactive (A now 0 0 (- MinLastActivityDays cfg)) repo \<and>
       isPushedInactive (A now 0 0 (- MinLastActivityDays cfg)) repo) \<longrightarrow>
      classify A now cfg repo \<noteq> Skipped SkipInactive) \<and>
   (MinLastActivityDays cfg = 0 \<longrightarrow>
      \<not> isInactive A now cfg repo \<and> classify A now cfg repo \<noteq> Skipped SkipInactive)"
proof (intro conjI impI)
  show "isInactive A now cfg repo \<longleftrightarrow>
      0 < MinLastActivityDays cfg \<and>
      (\<exists>u p. UpdatedAt repo = Some u \<and> PushedAt repo = Some p \<and>
             u < A now 0 0 (- MinLastActivityDays cfg) \<and>
             p < A now 0 0 (- MinLastActivityDays cfg))"
    by (auto simp: isInactive_def isUpdatedInactive_def isPushedInactive_def
        minLastActivityTS_def split: option.splits)
  show "isInactive A now cfg repo" if "classify A now cfg repo = Skipped SkipInactive"
    using that by (auto simp: classify_def split: if_splits option.splits)
  show "classify A now cfg repo \<noteq> Skipped SkipInactive"
    if "0 < MinLastActivityDays cfg \<and>
    \<not> (isUpdatedInactive (A now 0 0 (- MinLastActivityDays cfg)) repo \<and>
       isPushedInactive (A now 0 0 (- MinLastActivityDays cfg)) repo)"
    using that by (auto simp: classify_def isInactive_def minLastActivityTS_def split: if_splits option.splits)
  show "\<not> isInactive A now cfg repo" if "MinLastActivityDays cfg = 0"
    using that by (simp add: isInactive_def)
  show "classify A now cfg repo \<noteq> Skipped SkipInactive" if "MinLastActivityDays cfg = 0"
    using that by (auto simp: classify_def isInactive_def split: if_splits option.splits)
qed


theorem inactive_needs_both_stale_witness:
  "classify utc_AddDate 8640000 (policy_defaults\<lparr>MinLastActivityDays := 30\<rparr>)
      (repo1\<lparr>UpdatedAt := Some 864000, PushedAt := Some 6912000\<rparr>) \<noteq> Skipped SkipInactive \<and>
   isInactive utc_AddDate 8640000 (policy_defaults\<lparr>MinLastActivityDays := 30\<rparr>)
      (repo1\<lparr>UpdatedAt := Some 864000, PushedAt := Some 864001\<rparr>) \<and>
   classify utc_AddDate 8640000 policy_defaults
      (repo1\<lparr>UpdatedAt := Some 864000, PushedAt := Some 864001\<rparr>) \<noteq> Skipped SkipInactive"
proof -
  let ?cfg = "policy_defaults\<lparr>MinLastActivityDays := 30\<rparr>"
  let ?one = "repo1\<lparr>UpdatedAt := Some 864000, PushedAt := Some 6912000\<rparr>"
  let ?both = "repo1\<lparr>UpdatedAt := Some 864000, PushedAt := Some 864001\<rparr>"
  have one: "0 < MinLastActivityDays ?cfg \<and>
      \<not> (isUpdatedInactive (utc_AddDate 8640000 0 0 (- MinLastActivityDays ?cfg)) ?one \<and>
         isPushedInactive (utc_AddDate 8640000 0 0 (- MinLastActivityDays ?cfg)) ?one)"
    by (simp add: isUpdatedInactive_def isPushedInactive_def utc_AddDate_def)
  have both: "0 < MinLastActivityDays ?cfg \<and>
      (\<exists>u p. UpdatedAt ?both = Some u \<and> PushedAt ?both = Some p \<and>
             u < utc_AddDate 8640000 0 0 (- MinLastActivityDays ?cfg) \<and>
             p < utc_AddDate 8640000 0 0 (- MinLastActivityDays ?cfg))"
    by (simp add: utc_AddDate_def)
  have zero: "MinLastActivityDays policy_defaults = 0"
    by (simp add: policy_defaults_def)
  from inactive_needs_both_stale
      [where A = utc_AddDate and now = 8640000 and cfg = ?cfg and repo = ?one] one
  have 1: "classify utc_AddDate 8640000 ?cfg ?one \<noteq> Skipped SkipInactive"
    by blast
  from inactive_needs_both_stale
      [where A = utc_AddDate and now = 8640000 and cfg = ?cfg and repo = ?both] both
  have 2: "isInactive utc_AddDate 8640000 ?cfg ?both"
    by blast
  from inactive_needs_both_stale
      [where A = utc_AddDate and now = 8640000 and cfg = policy_defaults and repo = ?both] zero
  have 3: "classify utc_AddDate 8640000 policy_defaults ?both \<noteq> Skipped SkipInactive"
    by blast
  from 1 2 3 show ?thesis by blast
qed



section \<open>String functions of the standard library\<close>

text \<open>
  A Go string is a sequence of bytes, here \<^typ>\<open>string\<close>. \<open>strings.Join\<close>:
\<close>

fun Join :: "string list \<Rightarrow> string \<Rightarrow> string" where
  "Join [] sep = []"
| "Join [x] sep = x"
| "Join (x # y # ys) sep = x @ sep @ Join (y # ys) sep"

text \<open>
  \<open>strings.Replace(s, old, new, -1)\<close> replaces the non-overlapping occurrences of
  \<open>old\<close>, found from left to right: \<open>replaceAll\<close> is its loop for a non-empty \<open>old\<close>.
  With an empty \<open>old\<close> Go inserts \<open>new\<close> before every UTF-8 sequence and at the end,
  written here for a string of one-byte sequences.
\<close>

function replaceAll :: "string \<Rightarrow> string \<Rightarrow> string \<Rightarrow> string" where
  "replaceAll old new [] = []"
| "replaceAll old new (c # cs) =
     (if old \<noteq> [] \<and> prefix old (c # cs)
      then new @ replaceAll old new (drop (length old) (c # cs))
      else c # replaceAll old new cs)"
  by pat_completeness auto
termination
  by (relation "measure (\<lambda>(old, new, s). length s)") auto

definition Replace :: "string \<Rightarrow> string \<Rightarrow> string \<Rightarrow> string" where
  "Replace s old new =
     (if old = new then s
      else if old = [] then new @ concat (map (\<lambda>c. c # new) s)
      else replaceAll old new s)"

text \<open>\<open>strings.Trim(s, "/")\<close> and \<open>strings.Split(s, "/")\<close>, for a cutset and a separator of one byte.\<close>

definition Trim :: "string \<Rightarrow> char \<Rightarrow> string" where
  "Trim s c = rev (dropWhile (\<lambda>x. x = c) (rev (dropWhile (\<lambda>x. x = c) s)))"

fun Split :: "string \<Rightarrow> char \<Rightarrow> string list" where
  "Split [] sep = [[]]"
| "Split (c # cs) sep =
     (if c = sep then [] # Split cs sep
      else (case Split cs sep of [] \<Rightarrow> [[c]] | p # ps \<Rightarrow> (c # p) # ps))"

subsection \<open>Replacing a string that does not overlap its replacement\<close>

text \<open>
  Two strings overlap when one occurs in the other, or a non-empty beginning of the first
  is an end of the second, or a non-empty end of the first is a beginning of the second.
  When \<open>old\<close> and \<open>new\<close> do not overlap, no occurrence of \<open>old\<close> is left after the
  replacement.
\<close>

definition overlapping :: "string \<Rightarrow> string \<Rightarrow> bool" where
  "overlapping t m =
     (sublist t m \<or> sublist m t \<or>
      (\<exists>p \<in> set (prefixes t). p \<noteq> [] \<and> suffix p m) \<or>
      (\<exists>q \<in> set (suffixes t). q \<noteq> [] \<and> prefix q m))"

lemma replaceAll_prefix:
  "\<not> overlapping t m \<Longrightarrow> suffix q t \<Longrightarrow> prefix q (replaceAll t m s) \<Longrightarrow> prefix q s"
proof (induction t m s arbitrary: q rule: replaceAll.induct)
  case (1 old new)
  then show ?case by simp
next
  case (2 old new c cs)
  show ?case
  proof (cases "old \<noteq> [] \<and> prefix old (c # cs)")
    case True
    with "2.prems"(3) have pq: "prefix q (new @ replaceAll old new (drop (length old) (c # cs)))"
      by simp
    have "q = []"
    proof (rule ccontr)
      assume ne: "q \<noteq> []"
      from pq consider "prefix q new"
        | us where "q = new @ us"
        by (auto simp: prefix_append)
      then show False
      proof cases
        case 1
        with ne "2.prems"(1,2) show False
          by (auto simp: overlapping_def)
      next
        case 2
        then have "sublist new q" by auto
        with "2.prems"(2) have "sublist new old"
          by (meson sublist_order.order_trans suffix_imp_sublist)
        with "2.prems"(1) show False
          by (simp add: overlapping_def)
      qed
    qed
    then show ?thesis by simp
  next
    case False
    with "2.prems"(3) have pq: "prefix q (c # replaceAll old new cs)"
      by auto
    show ?thesis
    proof (cases q)
      case Nil
      then show ?thesis by simp
    next
      case (Cons a q')
      with pq have a: "a = c" and p': "prefix q' (replaceAll old new cs)"
        by simp_all
      from Cons "2.prems"(2) have "suffix q' old"
        by (auto dest: suffix_ConsD)
      with "2.IH"(2) [OF False "2.prems"(1) _ p'] have "prefix q' cs"
        by simp
      with Cons a show ?thesis by simp
    qed
  qed
qed

lemma replaceAll_no_occurrence:
  "\<not> overlapping t m \<Longrightarrow> \<not> sublist t (replaceAll t m s)"
proof (induction t m s rule: replaceAll.induct)
  case (1 old new)
  then show ?case by (auto simp: overlapping_def)
next
  case (2 old new c cs)
  have ne: "old \<noteq> []"
    using "2.prems" by (auto simp: overlapping_def)
  show ?case
  proof (cases "prefix old (c # cs)")
    case True
    let ?rest = "replaceAll old new (drop (length old) (c # cs))"
    from True ne "2.IH"(1) "2.prems" have ih: "\<not> sublist old ?rest"
      by simp
    have "\<not> sublist old (new @ ?rest)"
    proof
      assume "sublist old (new @ ?rest)"
      then consider "sublist old new" | "sublist old ?rest"
        | t1 t2 where "old = t1 @ t2" "suffix t1 new" "prefix t2 ?rest"
        by (auto simp: sublist_append)
      then show False
      proof cases
        case 1
        with "2.prems" show False by (simp add: overlapping_def)
      next
        case 2
        with ih show False by simp
      next
        case 3
        show False
        proof (cases "t1 = []")
          case True
          with 3 have "prefix old ?rest" by simp
          then have "sublist old ?rest" by (rule prefix_imp_sublist)
          with ih show False by simp
        next
          case False
          from 3(1) have "prefix t1 old" by simp
          with False 3(2) "2.prems" show False
            by (auto simp: overlapping_def)
        qed
      qed
    qed
    with True ne show ?thesis by simp
  next
    case False
    from False "2.IH"(2) "2.prems" have ih: "\<not> sublist old (replaceAll old new cs)"
      by simp
    have "\<not> prefix old (c # replaceAll old new cs)"
    proof
      assume "prefix old (c # replaceAll old new cs)"
      with False have "prefix old (replaceAll old new (c # cs))" by simp
      from replaceAll_prefix [OF "2.prems" _ this] have "prefix old (c # cs)" by simp
      with False show False by simp
    qed
    with ih False show ?thesis
      by (simp add: sublist_Cons_right)
  qed
qed

lemma Replace_no_occurrence:
  "\<not> overlapping t m \<Longrightarrow> \<not> sublist t (Replace s t m)"
proof -
  assume a: "\<not> overlapping t m"
  then have "t \<noteq> m" "t \<noteq> []"
    by (auto simp: overlapping_def)
  then have "Replace s t m = replaceAll t m s"
    by (simp add: Replace_def)
  with a show ?thesis
    by (simp add: replaceAll_no_occurrence)
qed

section \<open>Scanning (package lava)\<close>

text \<open>
  \<open>report.Vulnerability\<close> of the scanner's report, with the fields that \<open>scanRepo\<close>
  reads. A row is a Go \<open>map[string]string\<close>. \<open>Score\<close> is the decoded \<open>float32\<close>, which
  the code only compares with 0: every value that decoding a JSON number can leave in the
  field is a real number, and \<open>== 0\<close> on it is equality with 0.
\<close>

record ResourcesGroup =
  Rows :: "(string \<rightharpoonup> string) list"

record Vulnerability =
  AffectedResource :: string
  Score :: real
  Resources :: "ResourcesGroup list"

text \<open>
  \<open>lava.Summary\<close>. A nil \<open>Controls\<close> slice and an empty one are both \<open>[]\<close>: they have
  the same length and the same elements.
\<close>

record Summary =
  Repository :: string
  Controls :: "string list"
  ControlInPlace :: bool
  NumberOfControls :: int
  Error :: string

text \<open>
  The outcome of \<open>cmd.Run()\<close>. \<open>cmd.ProcessState.ExitCode()\<close> is the exit status of a
  process that exited, and -1 when the process was never started (nil \<open>ProcessState\<close>) or
  was ended by a signal. \<open>runErr\<close> is the text of the error that \<open>Run\<close> returned, which is
  not nil when the exit status is not 0; \<open>outBuf\<close> and \<open>errBuf\<close> are the captured
  streams.
\<close>

datatype process_state = Exited nat | NotExited

fun ExitCode :: "process_state \<Rightarrow> int" where
  "ExitCode (Exited n) = int n"
| "ExitCode NotExited = - 1"

record cmd_result =
  ProcessState :: process_state
  runErr :: string
  outBuf :: string
  errBuf :: string

text \<open>
  What the code reaches outside itself: the scanner process, \<open>json.Unmarshal\<close> into a
  slice of \<open>report.Vulnerability\<close> (\<open>Inl\<close> the error text), \<open>url.Parse\<close> (\<open>Inl\<close> the
  error text, \<open>Inr\<close> the \<open>Path\<close> of the parsed URL), and the two file system calls
  (\<open>Some\<close> the error text).
\<close>

record world =
  cmd_Run :: "string \<Rightarrow> string list \<Rightarrow> cmd_result"
  json_Unmarshal :: "string \<Rightarrow> string + Vulnerability list"
  url_Parse_Path :: "string \<Rightarrow> string + string"
  os_MkdirAll :: "string \<Rightarrow> string option"
  os_WriteFile :: "string \<Rightarrow> string \<Rightarrow> string option"

text \<open>
  What the code does to the outside, in the order it does it: log records (level,
  message, attributes; the \<open>duration\<close> attribute, a wall-clock reading, is left out), the
  run of the scanner, and the file system calls.
\<close>

datatype level = LevelDebug | LevelInfo | LevelWarn | LevelError

datatype event =
    Log level string "(string \<times> string) list"
  | Run string "string list"
  | MkdirAll string
  | WriteFile string string

subsection \<open>Raw results\<close>

datatype 'a result = Err string | Ok 'a

definition orgAndRepo :: "world \<Rightarrow> string \<Rightarrow> (string \<times> string) result" where
  "orgAndRepo w target =
     (case url_Parse_Path w target of
        Inl e \<Rightarrow> Err (''invalid URL: '' @ e)
      | Inr path \<Rightarrow>
          (let pathParts = Split (Trim path CHR ''/'') CHR ''/'' in
           if length pathParts < 2 then Err (''invalid GitHub URL path: '' @ path)
           else Ok (pathParts ! 0, pathParts ! 1)))"

definition storeResults :: "world \<Rightarrow> LavaConfig \<Rightarrow> string \<Rightarrow> string \<Rightarrow> string \<Rightarrow> event list" where
  "storeResults w cfg target stdout stderr =
     (if ResultsPath cfg = [] then []
      else
        (case orgAndRepo w target of
           Err e \<Rightarrow> [Log LevelError ''failed to parse target'' [(''target'', target), (''error'', e)]]
         | Ok (org, repo) \<Rightarrow>
             (let resultsPath = ResultsPath cfg @ org @ ''/'' @ repo in
              MkdirAll resultsPath #
              (case os_MkdirAll w resultsPath of
                 Some e \<Rightarrow>
                   [Log LevelError ''failed to create results directory''
                      [(''path'', resultsPath), (''error'', e)]]
               | None \<Rightarrow>
                   (let stdOutFile = resultsPath @ ''/stdout.json'';
                        stdErrFile = resultsPath @ ''/stderr.log'' in
                    WriteFile stdOutFile stdout #
                    (case os_WriteFile w stdOutFile stdout of
                       Some e \<Rightarrow>
                         [Log LevelError ''failed to write stdout Lava scan results''
                            [(''repository'', target), (''path'', stdOutFile), (''error'', e)]]
                     | None \<Rightarrow>
                         WriteFile stdErrFile stderr #
                         (case os_WriteFile w stdErrFile stderr of
                            Some e \<Rightarrow>
                              [Log LevelError ''failed to write stderr Lava scan results''
                                 [(''repository'', target), (''path'', stdErrFile), (''error'', e)]]
                          | None \<Rightarrow>
                              [Log LevelDebug ''Lava scan results stored''
                                 [(''repository'', target), (''stdout'', stdOutFile),
                                  (''stderr'', stdErrFile)]])))))))"

subsection \<open>One repository\<close>

definition lavaCmdArgs :: "LavaConfig \<Rightarrow> string \<Rightarrow> string list" where
  "lavaCmdArgs cfg repo =
     [''run'',
      ''-var'', ''GITHUB_ENTERPRISE_ENDPOINT='' @ LavaBaseURL cfg,
      ''-var'', ''GITHUB_ENTERPRISE_TOKEN='' @ LavaToken cfg,
      ''-type=GitRepository'',
      ''-show'', ''info'',
      ''-fmt=json'',
      CheckImage cfg,
      repo]"

definition loggedArgs :: "LavaConfig \<Rightarrow> string \<Rightarrow> string" where
  "loggedArgs cfg repo = Replace (Join (lavaCmdArgs cfg repo) '' '') (LavaToken cfg) ''REDACTED''"

text \<open>The three nested loops over the findings, their resources and the rows of each.\<close>

fun rowsLoop :: "(string \<rightharpoonup> string) list \<Rightarrow> Summary \<Rightarrow> Summary" where
  "rowsLoop [] s = s"
| "rowsLoop (control # rows) s =
     rowsLoop rows
       (case control ''Control'' of
          Some val \<Rightarrow> s\<lparr>NumberOfControls := NumberOfControls s + 1, Controls := Controls s @ [val]\<rparr>
        | None \<Rightarrow> s)"

fun resourcesLoop :: "ResourcesGroup list \<Rightarrow> Summary \<Rightarrow> Summary" where
  "resourcesLoop [] s = s"
| "resourcesLoop (resource # resources) s = resourcesLoop resources (rowsLoop (Rows resource) s)"

fun findingsLoop :: "Vulnerability list \<Rightarrow> Summary list \<Rightarrow> Summary list" where
  "findingsLoop [] summary = summary"
| "findingsLoop (r # lr) summary =
     findingsLoop lr
       (summary @
        [resourcesLoop (Resources r)
           \<lparr>Repository = AffectedResource r, Controls = [], ControlInPlace = (Score r = 0),
            NumberOfControls = 0, Error = []\<rparr>])"

definition scanRepo :: "world \<Rightarrow> LavaConfig \<Rightarrow> string \<Rightarrow> Summary list \<times> event list" where
  "scanRepo w cfg repo =
     (let started =
            [Log LevelDebug ''repository scan started'' [(''repository'', repo)],
             Log LevelDebug ''scan repository command''
               [(''repository'', repo), (''args'', loggedArgs cfg repo)],
             Run (BinaryPath cfg) (lavaCmdArgs cfg repo)];
          res = cmd_Run w (BinaryPath cfg) (lavaCmdArgs cfg repo);
          stored = started @ storeResults w cfg repo (outBuf res) (errBuf res)
      in
        if ExitCode (ProcessState res) > 0 then
          ([\<lparr>Repository = repo, Controls = [], ControlInPlace = False, NumberOfControls = 0,
             Error = ''error running Lava: '' @ runErr res\<rparr>],
           stored @
           [Log LevelError ''failed to run Lava''
              [(''error'', runErr res), (''repository'', repo), (''stderr'', errBuf res),
               (''stdout'', outBuf res)]])
        else
          (case json_Unmarshal w (outBuf res) of
             Inl e \<Rightarrow>
               ([\<lparr>Repository = repo, Controls = [], ControlInPlace = False, NumberOfControls = 0,
                  Error = ''error unmarsalling Lava report: '' @ e\<rparr>],
                stored @
                [Log LevelError ''failed to unmarshal Lava report''
                   [(''error'', e), (''repository'', repo), (''stderr'', errBuf res),
                    (''stdout'', outBuf res)]])
           | Inr lr \<Rightarrow>
               (findingsLoop lr [],
                stored @
                [Log LevelInfo ''repository scan completed successfully''
                   [(''repository'', repo)]])))"

subsection \<open>All repositories\<close>

text \<open>
  \<open>Scan\<close> starts \<open>Concurrency\<close> workers, queues every target, waits for the workers and
  then drains the result channel, appending the summaries of each result in turn. Each
  worker sends one result per target it takes, so with at least one worker the results
  are those of the targets in the order in which the workers delivered them; that order,
  a rearrangement of \<open>targets\<close>, is the argument \<open>delivered\<close>. With no worker nothing
  is taken from the queue and the result is empty.
\<close>

definition Scan :: "world \<Rightarrow> LavaConfig \<Rightarrow> string list \<Rightarrow> Summary list" where
  "Scan w cfg delivered =
     (if LavaConcurrency cfg \<le> 0 then []
      else concat (map (\<lambda>repo. fst (scanRepo w cfg repo)) delivered))"

subsection \<open>Concrete inputs\<close>

definition lava_defaults :: LavaConfig where
  "lava_defaults =
     \<lparr>LavaToken = ''ghp_x9fR2'', LavaBaseURL = ''https://ghe.example'', LavaConcurrency = 10,
      BinaryPath = ''/usr/bin/lava'',
      CheckImage = ''vulcansec/vulcan-repository-sctrl:a20516f-4aae88d'',
      ResultsPath = []\<rparr>"

definition finding1 :: Vulnerability where
  "finding1 =
     \<lparr>AffectedResource = ''org1/repo1'', Score = 0,
      Resources = [\<lparr>Rows = [[''Control'' \<mapsto> ''MFA''], [''Control'' \<mapsto> ''BranchProtection'']]\<rparr>]\<rparr>"

text \<open>
  A world in which the scanner ends in the given state with the given output, the output
  parses as the given report (or fails to parse with the given text), every address has
  the given URL path and the file system calls succeed.
\<close>

definition world_of ::
  "process_state \<Rightarrow> string \<Rightarrow> string + Vulnerability list \<Rightarrow> string \<Rightarrow> world" where
  "world_of st out parsed path =
     \<lparr>cmd_Run = (\<lambda>bin args. \<lparr>ProcessState = st, runErr = ''exit status 1'', outBuf = out,
                                errBuf = ''timeout''\<rparr>),
      json_Unmarshal = (\<lambda>b. parsed),
      url_Parse_Path = (\<lambda>t. Inr path),
      os_MkdirAll = (\<lambda>p. None),
      os_WriteFile = (\<lambda>p b. None)\<rparr>"

subsection \<open>The summaries of a parsed report\<close>

text \<open>
  The summary of a finding as the specification words it: the values of the rows' entries
  under the key \<open>Control\<close>, over all resources of the finding, in the order met.
\<close>

definition controls_of :: "Vulnerability \<Rightarrow> string list" where
  "controls_of r =
     concat (map (\<lambda>resource. List.map_filter (\<lambda>row. row ''Control'') (Rows resource)) (Resources r))"

definition summary_of :: "Vulnerability \<Rightarrow> Summary" where
  "summary_of r =
     \<lparr>Repository = AffectedResource r, Controls = controls_of r,
      ControlInPlace = (Score r = 0), NumberOfControls = int (length (controls_of r)),
      Error = []\<rparr>"

lemma rowsLoop_eq:
  "rowsLoop rows s =
     s\<lparr>NumberOfControls := NumberOfControls s + int (length (List.map_filter (\<lambda>row. row ''Control'') rows)),
       Controls := Controls s @ List.map_filter (\<lambda>row. row ''Control'') rows\<rparr>"
proof (induction rows arbitrary: s)
  case Nil
  then show ?case by (simp add: List.map_filter_simps)
next
  case (Cons control rows)
  show ?case
    by (cases "control ''Control''") (simp_all add: Cons.IH List.map_filter_simps)
qed

lemma resourcesLoop_eq:
  "resourcesLoop rs s =
     s\<lparr>NumberOfControls := NumberOfControls s +
          int (length (concat (map (\<lambda>resource. List.map_filter (\<lambda>row. row ''Control'') (Rows resource)) rs))),
       Controls := Controls s @
          concat (map (\<lambda>resource. List.map_filter (\<lambda>row. row ''Control'') (Rows resource)) rs)\<rparr>"
proof (induction rs arbitrary: s)
  case Nil
  then show ?case by simp
next
  case (Cons resource rs)
  show ?case
    by (simp add: Cons.IH rowsLoop_eq)
qed

lemma findingsLoop_eq: "findingsLoop lr summary = summary @ map summary_of lr"
proof (induction lr arbitrary: summary)
  case Nil
  then show ?case by simp
next
  case (Cons r lr)
  show ?case
    by (simp add: Cons.IH resourcesLoop_eq summary_of_def controls_of_def)
qed

text \<open>
  C1. When the exit code test passes and the output parses, \<open>scanRepo\<close> returns one
  summary per finding, in the order of the findings: summary \<open>i\<close> has the affected
  resource of finding \<open>i\<close> as its repository, \<open>ControlInPlace\<close> true exactly when the
  score is 0, as \<open>Controls\<close> the values under the key \<open>Control\<close> of the rows of all
  resources of the finding in the order met, \<open>NumberOfControls\<close> equal to the length of
  \<open>Controls\<close>, and no error.
\<close>

theorem scanRepo_parsed_findings:
  assumes "res = cmd_Run w (BinaryPath cfg) (lavaCmdArgs cfg repo)"
    and "\<not> ExitCode (ProcessState res) > 0"
    and "json_Unmarshal w (outBuf res) = Inr lr"
  shows "fst (scanRepo w cfg repo) = map summary_of lr \<and>
         length (fst (scanRepo w cfg repo)) = length lr \<and>
         (\<forall>i < length lr.
            Repository (fst (scanRepo w cfg repo) ! i) = AffectedResource (lr ! i) \<and>
            ControlInPlace (fst (scanRepo w cfg repo) ! i) = (Score (lr ! i) = 0) \<and>
            Controls (fst (scanRepo w cfg repo) ! i) = controls_of (lr ! i) \<and>
            NumberOfControls (fst (scanRepo w cfg repo) ! i) =
              int (length (Controls (fst (scanRepo w cfg repo) ! i))) \<and>
            Error (fst (scanRepo w cfg repo) ! i) = [])"
proof -
  from assms have eq: "fst (scanRepo w cfg repo) = map summary_of lr"
    by (simp add: scanRepo_def Let_def findingsLoop_eq)
  then show ?thesis
    by (simp add: summary_of_def)
qed

theorem scanRepo_parsed_findings_witness:
  "fst (scanRepo (world_of (Exited 0) ''[report]'' (Inr [finding1]) ''/org1/repo1'') lava_defaults
          ''https://ghe.example/org1/repo1'') =
     [\<lparr>Repository = ''org1/repo1'', Controls = [''MFA'', ''BranchProtection''],
       ControlInPlace = True, NumberOfControls = 2, Error = []\<rparr>]"
proof -
  let ?w = "world_of (Exited 0) ''[report]'' (Inr [finding1]) ''/org1/repo1''"
  let ?repo = "''https://ghe.example/org1/repo1''"
  let ?res = "cmd_Run ?w (BinaryPath lava_defaults) (lavaCmdArgs lava_defaults ?repo)"
  have ok: "\<not> ExitCode (ProcessState ?res) > 0"
    by (simp add: world_of_def)
  have parsed: "json_Unmarshal ?w (outBuf ?res) = Inr [finding1]"
    by (simp add: world_of_def)
  from scanRepo_parsed_findings [OF refl ok parsed]
  have "fst (scanRepo ?w lava_defaults ?repo) = map summary_of [finding1]"
    by blast
  then show ?thesis
    by (simp add: summary_of_def controls_of_def finding1_def List.map_filter_simps)
qed

subsection \<open>Failed scans\<close>






subsection \<open>How many summaries a repository yields\<close>

text \<open>
  C5 as stated fails: a scanner that exits with status 0 and prints an empty array of
  findings gives no summary at all for the repository.
\<close>

theorem scanRepo_empty_report_counterexample:
  "\<not> 1 \<le> length (fst (scanRepo (world_of (Exited 0) ''[]'' (Inr []) ''/org1/repo1'') lava_defaults
                         ''https://ghe.example/org1/repo1'')) \<and>
   Scan (world_of (Exited 0) ''[]'' (Inr []) ''/org1/repo1'') lava_defaults
        [''https://ghe.example/org1/repo1''] = []"
  by (simp add: scanRepo_def Scan_def world_of_def lava_defaults_def)

text \<open>
  C5, as the code has it. A repository yields one summary when the exit code is positive
  or the output does not parse, and otherwise as many summaries as the parsed report has
  findings: it yields none exactly when the exit code is not positive and the report
  parses as an empty array. With at least one worker, \<open>Scan\<close> returns the summaries of
  all delivered targets together.
\<close>

theorem scanRepo_summary_count:
  assumes "res = cmd_Run w (BinaryPath cfg) (lavaCmdArgs cfg repo)"
  shows "length (fst (scanRepo w cfg repo)) =
           (if ExitCode (ProcessState res) > 0 then 1
            else case json_Unmarshal w (outBuf res) of Inl e \<Rightarrow> 1 | Inr lr \<Rightarrow> length lr) \<and>
         (fst (scanRepo w cfg repo) = [] \<longleftrightarrow>
            \<not> ExitCode (ProcessState res) > 0 \<and> json_Unmarshal w (outBuf res) = Inr []) \<and>
         (0 < LavaConcurrency cfg \<longrightarrow>
            length (Scan w cfg delivered) =
              sum_list (map (\<lambda>r. length (fst (scanRepo w cfg r))) delivered))"
proof (intro conjI impI)
  show "length (fst (scanRepo w cfg repo)) =
           (if ExitCode (ProcessState res) > 0 then 1
            else case json_Unmarshal w (outBuf res) of Inl e \<Rightarrow> 1 | Inr lr \<Rightarrow> length lr)"
    using assms by (simp add: scanRepo_def Let_def findingsLoop_eq split: sum.splits)
  show "fst (scanRepo w cfg repo) = [] \<longleftrightarrow>
            \<not> ExitCode (ProcessState res) > 0 \<and> json_Unmarshal w (outBuf res) = Inr []"
    using assms by (auto simp: scanRepo_def Let_def findingsLoop_eq split: sum.splits)
  show "length (Scan w cfg delivered) =
          sum_list (map (\<lambda>r. length (fst (scanRepo w cfg r))) delivered)"
    if "0 < LavaConcurrency cfg"
    using that by (simp add: Scan_def length_concat comp_def)
qed

theorem scanRepo_summary_count_witness:
  "length (fst (scanRepo (world_of (Exited 0) ''[report]'' (Inr [finding1, finding1]) ''/org1/repo1'')
                 lava_defaults ''https://ghe.example/org1/repo1'')) = 2 \<and>
   length (Scan (world_of (Exited 1) [] (Inr []) ''/org1/repo1'') lava_defaults
             [''https://ghe.example/org1/repo1'', ''https://ghe.example/org1/repo2'']) = 2"
proof -
  let ?repo = "''https://ghe.example/org1/repo1''"
  let ?w = "world_of (Exited 0) ''[report]'' (Inr [finding1, finding1]) ''/org1/repo1''"
  let ?w1 = "world_of (Exited 1) [] (Inr []) ''/org1/repo1''"
  have pos: "0 < LavaConcurrency lava_defaults"
    by (simp add: lava_defaults_def)
  from scanRepo_summary_count [OF refl, of ?w lava_defaults ?repo]
  have 1: "length (fst (scanRepo ?w lava_defaults ?repo)) = 2"
    by (simp add: world_of_def)
  have one: "length (fst (scanRepo ?w1 lava_defaults r)) = 1" for r
    using scanRepo_summary_count [OF refl, of ?w1 lava_defaults r]
    by (simp add: world_of_def)
  from scanRepo_summary_count [OF refl, of ?w1 lava_defaults ?repo
      "[''https://ghe.example/org1/repo1'', ''https://ghe.example/org1/repo2'']"] pos
  have 2: "length (Scan ?w1 lava_defaults
             [''https://ghe.example/org1/repo1'', ''https://ghe.example/org1/repo2'']) =
           sum_list (map (\<lambda>r. length (fst (scanRepo ?w1 lava_defaults r)))
             [''https://ghe.example/org1/repo1'', ''https://ghe.example/org1/repo2''])"
    by blast
  from 1 2 one show ?thesis by simp
qed

subsection \<open>The logged command line\<close>

text \<open>
  C9 as stated fails for a token that overlaps the marker: with the token \<open>ACT\<close> the
  logged command line reads \<open>GITHUB_ENTERPRISE_TOKEN=REDACTED\<close>, which contains the token.
\<close>

theorem loggedArgs_token_counterexample:
  "LavaToken (lava_defaults\<lparr>LavaToken := ''ACT''\<rparr>) \<noteq> [] \<and>
   loggedArgs (lava_defaults\<lparr>LavaToken := ''ACT''\<rparr>) ''https://ghe.example/org1/repo1'' =
     ''run -var GITHUB_ENTERPRISE_ENDPOINT=https://ghe.example -var GITHUB_ENTERPRISE_TOKEN=REDACTED -type=GitRepository -show info -fmt=json vulcansec/vulcan-repository-sctrl:a20516f-4aae88d https://ghe.example/org1/repo1'' \<and>
   sublist (LavaToken (lava_defaults\<lparr>LavaToken := ''ACT''\<rparr>))
     (loggedArgs (lava_defaults\<lparr>LavaToken := ''ACT''\<rparr>) ''https://ghe.example/org1/repo1'')"
proof -
  let ?cfg = "lava_defaults\<lparr>LavaToken := ''ACT''\<rparr>"
  let ?out = "''run -var GITHUB_ENTERPRISE_ENDPOINT=https://ghe.example -var GITHUB_ENTERPRISE_TOKEN=REDACTED -type=GitRepository -show info -fmt=json vulcansec/vulcan-repository-sctrl:a20516f-4aae88d https://ghe.example/org1/repo1''"
  have l: "loggedArgs ?cfg ''https://ghe.example/org1/repo1'' = ?out"
    by (simp add: loggedArgs_def lavaCmdArgs_def lava_defaults_def Replace_def)
  have "?out = ''run -var GITHUB_ENTERPRISE_ENDPOINT=https://ghe.example -var GITHUB_ENTERPRISE_TOKEN=RED''
      @ ''ACT'' @ ''ED -type=GitRepository -show info -fmt=json vulcansec/vulcan-repository-sctrl:a20516f-4aae88d https://ghe.example/org1/repo1''"
    by simp
  then have s: "sublist ''ACT'' ?out"
    by (metis sublist_appendI)
  from l s show ?thesis by simp
qed

text \<open>
  C9, as the code has it. The second record that \<open>scanRepo\<close> logs carries, as \<open>args\<close>,
  the argument list joined by spaces in which the occurrences of the token, found from left
  to right without overlap, are replaced by \<open>REDACTED\<close>. That string does not contain the
  token when token and marker do not overlap: neither contains the other, no non-empty
  beginning of the token ends the marker and no non-empty end of the token begins it.
\<close>

theorem loggedArgs_redacted:
  "snd (scanRepo w cfg repo) ! 1 =
     Log LevelDebug ''scan repository command''
       [(''repository'', repo),
        (''args'', Replace (Join (lavaCmdArgs cfg repo) '' '') (LavaToken cfg) ''REDACTED'')] \<and>
   (\<not> overlapping (LavaToken cfg) ''REDACTED'' \<longrightarrow>
      \<not> sublist (LavaToken cfg)
          (Replace (Join (lavaCmdArgs cfg repo) '' '') (LavaToken cfg) ''REDACTED''))"
proof (intro conjI impI)
  show "snd (scanRepo w cfg repo) ! 1 =
     Log LevelDebug ''scan repository command''
       [(''repository'', repo),
        (''args'', Replace (Join (lavaCmdArgs cfg repo) '' '') (LavaToken cfg) ''REDACTED'')]"
    by (simp add: scanRepo_def Let_def loggedArgs_def split: sum.splits)
  show "\<not> sublist (LavaToken cfg)
          (Replace (Join (lavaCmdArgs cfg repo) '' '') (LavaToken cfg) ''REDACTED'')"
    if "\<not> overlapping (LavaToken cfg) ''REDACTED''"
    using that by (rule Replace_no_occurrence)
qed

theorem loggedArgs_redacted_witness:
  "\<not> sublist ''ghp_x9fR2''
      (Replace (Join (lavaCmdArgs lava_defaults ''https://ghe.example/org1/repo1'') '' '')
         ''ghp_x9fR2'' ''REDACTED'') \<and>
   sublist ''ghp_x9fR2'' (Join (lavaCmdArgs lava_defaults ''https://ghe.example/org1/repo1'') '' '')"
proof -
  have t: "LavaToken lava_defaults = ''ghp_x9fR2''"
    by (simp add: lava_defaults_def)
  have no: "\<not> overlapping (LavaToken lava_defaults) ''REDACTED''"
    unfolding t by (simp add: overlapping_def suffix_to_prefix sublist_code)
  from loggedArgs_redacted [of _ lava_defaults "''https://ghe.example/org1/repo1''"] no
  have 1: "\<not> sublist (LavaToken lava_defaults)
      (Replace (Join (lavaCmdArgs lava_defaults ''https://ghe.example/org1/repo1'') '' '')
         (LavaToken lava_defaults) ''REDACTED'')"
    by blast
  have "Join (lavaCmdArgs lava_defaults ''https://ghe.example/org1/repo1'') '' '' =
      ''run -var GITHUB_ENTERPRISE_ENDPOINT=https://ghe.example -var GITHUB_ENTERPRISE_TOKEN=''
      @ ''ghp_x9fR2'' @ '' -type=GitRepository -show info -fmt=json vulcansec/vulcan-repository-sctrl:a20516f-4aae88d https://ghe.example/org1/repo1''"
    by (simp add: lavaCmdArgs_def lava_defaults_def)
  then have 2: "sublist ''ghp_x9fR2''
      (Join (lavaCmdArgs lava_defaults ''https://ghe.example/org1/repo1'') '' '')"
    by (metis sublist_appendI)
  from 1 2 t show ?thesis by simp
qed

subsection \<open>Raw results and the summary\<close>

text \<open>The path segments that are not empty, as the specification words the choice.\<close>

definition nonempty_segments :: "string \<Rightarrow> string list" where
  "nonempty_segments path = filter (\<lambda>s. s \<noteq> []) (Split path CHR ''/'')"

lemma Split_not_Nil: "Split s c \<noteq> []"
  by (induction s) (auto split: list.splits)

lemma Split_snoc_sep: "Split (s @ [c]) c = Split s c @ [[]]"
proof (induction s)
  case Nil
  then show ?case by simp
next
  case (Cons a s)
  then show ?case
    using Split_not_Nil [of s c] by (auto split: list.splits)
qed

lemma segments_drop_leading:
  "\<forall>x \<in> set xs. x = c \<Longrightarrow>
   filter (\<lambda>s. s \<noteq> []) (Split (xs @ s) c) = filter (\<lambda>s. s \<noteq> []) (Split s c)"
  by (induction xs) auto

lemma segments_drop_trailing:
  "\<forall>x \<in> set ys. x = c \<Longrightarrow>
   filter (\<lambda>s. s \<noteq> []) (Split (s @ ys) c) = filter (\<lambda>s. s \<noteq> []) (Split s c)"
proof (induction ys arbitrary: s)
  case Nil
  then show ?case by simp
next
  case (Cons y ys)
  then have "y = c" by simp
  have "filter (\<lambda>s. s \<noteq> []) (Split ((s @ [c]) @ ys) c) = filter (\<lambda>s. s \<noteq> []) (Split (s @ [c]) c)"
    using Cons.prems by (intro Cons.IH) simp
  then show ?case
    using \<open>y = c\<close> by (simp add: Split_snoc_sep)
qed

lemma rev_dropWhile_takeWhile:
  "xs = rev (dropWhile P (rev xs)) @ rev (takeWhile P (rev xs))"
  by (metis rev_append rev_rev_ident takeWhile_dropWhile_id)

lemma Trim_decompose:
  "\<exists>xs ys. path = xs @ Trim path c @ ys \<and> (\<forall>x \<in> set xs. x = c) \<and> (\<forall>y \<in> set ys. y = c)"
proof -
  let ?p = "\<lambda>x. x = c"
  let ?d = "dropWhile ?p path"
  have 1: "path = takeWhile ?p path @ ?d" by simp
  have 2: "?d = Trim path c @ rev (takeWhile ?p (rev ?d))"
    unfolding Trim_def by (rule rev_dropWhile_takeWhile)
  have a: "\<forall>x \<in> set (takeWhile ?p path). x = c"
    by (auto dest: set_takeWhileD)
  have b: "\<forall>y \<in> set (rev (takeWhile ?p (rev ?d))). y = c"
    by (auto dest: set_takeWhileD)
  from 1 2 have "path = takeWhile ?p path @ Trim path c @ rev (takeWhile ?p (rev ?d))"
    by simp
  with a b show ?thesis by blast
qed

lemma segments_Trim:
  "filter (\<lambda>s. s \<noteq> []) (Split (Trim path c) c) = filter (\<lambda>s. s \<noteq> []) (Split path c)"
proof -
  from Trim_decompose [of path c] obtain xs ys where
    p: "path = xs @ Trim path c @ ys" and xs: "\<forall>x \<in> set xs. x = c" and ys: "\<forall>y \<in> set ys. y = c"
    by blast
  have "filter (\<lambda>s. s \<noteq> []) (Split (xs @ Trim path c @ ys) c) =
        filter (\<lambda>s. s \<noteq> []) (Split (Trim path c) c)"
    using xs ys by (simp add: segments_drop_leading segments_drop_trailing)
  with p show ?thesis by simp
qed

lemma Trim_hd: "Trim path c = a # s \<Longrightarrow> a \<noteq> c"
proof -
  assume t: "Trim path c = a # s"
  let ?p = "\<lambda>x. x = c"
  let ?d = "dropWhile ?p path"
  have "?d = Trim path c @ rev (takeWhile ?p (rev ?d))"
    unfolding Trim_def by (rule rev_dropWhile_takeWhile)
  with t have d: "?d = a # s @ rev (takeWhile ?p (rev ?d))" by simp
  have "?d \<noteq> []"
  proof
    assume "?d = []"
    with d show False by (metis list.distinct(1))
  qed
  then have "\<not> ?p (hd ?d)" by (rule hd_dropWhile)
  moreover have "hd ?d = a" by (subst d) simp
  ultimately show ?thesis by simp
qed

lemma Split_hd_nonempty: "Trim path c \<noteq> [] \<Longrightarrow> hd (Split (Trim path c) c) \<noteq> []"
proof -
  assume "Trim path c \<noteq> []"
  then obtain a s where t: "Trim path c = a # s" by (cases "Trim path c") auto
  then have "a \<noteq> c" by (rule Trim_hd)
  with t show ?thesis
    using Split_not_Nil [of s c] by (auto split: list.splits)
qed

lemma first_two_segments:
  assumes "Split (Trim path CHR ''/'') CHR ''/'' = org # rp # rest" and "rp \<noteq> []"
  shows "take 2 (nonempty_segments path) = [org, rp]"
proof -
  have "Trim path CHR ''/'' \<noteq> []"
    using assms(1) by auto
  from Split_hd_nonempty [OF this] assms(1) have "org \<noteq> []" by simp
  have "nonempty_segments path = filter (\<lambda>s. s \<noteq> []) (org # rp # rest)"
    unfolding nonempty_segments_def using segments_Trim [of path "CHR ''/''"] assms(1) by simp
  with \<open>org \<noteq> []\<close> assms(2) show ?thesis by simp
qed

text \<open>
  C7 as stated fails on a path with a doubled slash: the first two non-empty segments of
  \<open>/org1//repo1\<close> are \<open>org1\<close> and \<open>repo1\<close>, but \<open>orgAndRepo\<close> returns \<open>org1\<close> and the
  empty string, and the raw results are written under \<open>org1/\<close>.
\<close>

theorem orgAndRepo_doubled_slash_counterexample:
  "take 2 (nonempty_segments ''/org1//repo1'') = [''org1'', ''repo1''] \<and>
   orgAndRepo (world_of (Exited 0) ''out'' (Inr []) ''/org1//repo1'')
      ''https://ghe.example/org1//repo1'' = Ok (''org1'', []) \<and>
   storeResults (world_of (Exited 0) ''out'' (Inr []) ''/org1//repo1'')
      (lava_defaults\<lparr>ResultsPath := ''/tmp/results/''\<rparr>)
      ''https://ghe.example/org1//repo1'' ''out'' ''err'' =
     [MkdirAll ''/tmp/results/org1/'',
      WriteFile ''/tmp/results/org1//stdout.json'' ''out'',
      WriteFile ''/tmp/results/org1//stderr.log'' ''err'',
      Log LevelDebug ''Lava scan results stored''
        [(''repository'', ''https://ghe.example/org1//repo1''),
         (''stdout'', ''/tmp/results/org1//stdout.json''),
         (''stderr'', ''/tmp/results/org1//stderr.log'')]]"
  by (simp add: nonempty_segments_def orgAndRepo_def storeResults_def world_of_def Trim_def Let_def)

text \<open>
  C7, as the code has it. The summaries of a repository do not depend on the raw-results
  directory, nor on what the URL parser and the file system calls return. The events of
  \<open>storeResults\<close> precede the last event of \<open>scanRepo\<close>, the record logged on
  classifying the outcome. With a directory configured, the URL path trimmed of leading and
  trailing slashes is split at slashes: with at least two segments, and the file system
  calls succeeding, both streams are written under directory, first segment, slash, second
  segment (these are the first two non-empty segments of the path when the second is not
  empty); with fewer than two segments nothing is written and an error is logged.
\<close>

theorem raw_results_do_not_change_summary:
  "fst (scanRepo w cfg repo) = fst (scanRepo w (cfg\<lparr>ResultsPath := []\<rparr>) repo) \<and>
   fst (scanRepo (w\<lparr>url_Parse_Path := u, os_MkdirAll := m, os_WriteFile := f\<rparr>) cfg repo) =
     fst (scanRepo w cfg repo) \<and>
   (\<exists>final.
      snd (scanRepo w cfg repo) =
        [Log LevelDebug ''repository scan started'' [(''repository'', repo)],
         Log LevelDebug ''scan repository command''
           [(''repository'', repo), (''args'', loggedArgs cfg repo)],
         Run (BinaryPath cfg) (lavaCmdArgs cfg repo)] @
        storeResults w cfg repo
          (outBuf (cmd_Run w (BinaryPath cfg) (lavaCmdArgs cfg repo)))
          (errBuf (cmd_Run w (BinaryPath cfg) (lavaCmdArgs cfg repo))) @
        [final]) \<and>
   (ResultsPath cfg \<noteq> [] \<and> url_Parse_Path w repo = Inr path \<and>
    Split (Trim path CHR ''/'') CHR ''/'' = org # rp # rest \<and>
    os_MkdirAll w (ResultsPath cfg @ org @ ''/'' @ rp) = None \<and>
    os_WriteFile w (ResultsPath cfg @ org @ ''/'' @ rp @ ''/stdout.json'') out = None \<and>
    os_WriteFile w (ResultsPath cfg @ org @ ''/'' @ rp @ ''/stderr.log'') err = None \<longrightarrow>
      storeResults w cfg repo out err =
        [MkdirAll (ResultsPath cfg @ org @ ''/'' @ rp),
         WriteFile (ResultsPath cfg @ org @ ''/'' @ rp @ ''/stdout.json'') out,
         WriteFile (ResultsPath cfg @ org @ ''/'' @ rp @ ''/stderr.log'') err,
         Log LevelDebug ''Lava scan results stored''
           [(''repository'', repo),
            (''stdout'', ResultsPath cfg @ org @ ''/'' @ rp @ ''/stdout.json''),
            (''stderr'', ResultsPath cfg @ org @ ''/'' @ rp @ ''/stderr.log'')]] \<and>
      (rp \<noteq> [] \<longrightarrow> take 2 (nonempty_segments path) = [org, rp])) \<and>
   (ResultsPath cfg \<noteq> [] \<and> url_Parse_Path w repo = Inr path \<and>
    length (Split (Trim path CHR ''/'') CHR ''/'') < 2 \<longrightarrow>
      storeResults w cfg repo out err =
        [Log LevelError ''failed to parse target''
           [(''target'', repo), (''error'', ''invalid GitHub URL path: '' @ path)]])"
proof (intro conjI impI)
  show "fst (scanRepo w cfg repo) = fst (scanRepo w (cfg\<lparr>ResultsPath := []\<rparr>) repo)"
    by (simp add: scanRepo_def Let_def lavaCmdArgs_def split: sum.splits)
  show "fst (scanRepo (w\<lparr>url_Parse_Path := u, os_MkdirAll := m, os_WriteFile := f\<rparr>) cfg repo) =
     fst (scanRepo w cfg repo)"
    by (simp add: scanRepo_def Let_def split: sum.splits)
  show "\<exists>final.
      snd (scanRepo w cfg repo) =
        [Log LevelDebug ''repository scan started'' [(''repository'', repo)],
         Log LevelDebug ''scan repository command''
           [(''repository'', repo), (''args'', loggedArgs cfg repo)],
         Run (BinaryPath cfg) (lavaCmdArgs cfg repo)] @
        storeResults w cfg repo
          (outBuf (cmd_Run w (BinaryPath cfg) (lavaCmdArgs cfg repo)))
          (errBuf (cmd_Run w (BinaryPath cfg) (lavaCmdArgs cfg repo))) @
        [final]"
    by (simp add: scanRepo_def Let_def split: sum.splits)
next
  assume a: "ResultsPath cfg \<noteq> [] \<and> url_Parse_Path w repo = Inr path \<and>
    Split (Trim path CHR ''/'') CHR ''/'' = org # rp # rest \<and>
    os_MkdirAll w (ResultsPath cfg @ org @ ''/'' @ rp) = None \<and>
    os_WriteFile w (ResultsPath cfg @ org @ ''/'' @ rp @ ''/stdout.json'') out = None \<and>
    os_WriteFile w (ResultsPath cfg @ org @ ''/'' @ rp @ ''/stderr.log'') err = None"
  then have "orgAndRepo w repo = Ok (org, rp)"
    by (simp add: orgAndRepo_def Let_def)
  with a show "storeResults w cfg repo out err =
        [MkdirAll (ResultsPath cfg @ org @ ''/'' @ rp),
         WriteFile (ResultsPath cfg @ org @ ''/'' @ rp @ ''/stdout.json'') out,
         WriteFile (ResultsPath cfg @ org @ ''/'' @ rp @ ''/stderr.log'') err,
         Log LevelDebug ''Lava scan results stored''
           [(''repository'', repo),
            (''stdout'', ResultsPath cfg @ org @ ''/'' @ rp @ ''/stdout.json''),
            (''stderr'', ResultsPath cfg @ org @ ''/'' @ rp @ ''/stderr.log'')]]"
    by (simp add: storeResults_def Let_def)
  show "take 2 (nonempty_segments path) = [org, rp]" if "rp \<noteq> []"
    using a that by (intro first_two_segments) auto
next
  assume a: "ResultsPath cfg \<noteq> [] \<and> url_Parse_Path w repo = Inr path \<and>
    length (Split (Trim path CHR ''/'') CHR ''/'') < 2"
  then have "orgAndRepo w repo = Err (''invalid GitHub URL path: '' @ path)"
    by (simp add: orgAndRepo_def Let_def)
  with a show "storeResults w cfg repo out err =
        [Log LevelError ''failed to parse target''
           [(''target'', repo), (''error'', ''invalid GitHub URL path: '' @ path)]]"
    by (simp add: storeResults_def Let_def)
qed

theorem raw_results_do_not_change_summary_witness:
  "storeResults (world_of (Exited 0) ''out'' (Inr []) ''/org1/repo1.git'')
      (lava_defaults\<lparr>ResultsPath := ''/tmp/results/''\<rparr>)
      ''https://ghe.example/org1/repo1.git'' ''out'' ''err'' =
     [MkdirAll ''/tmp/results/org1/repo1.git'',
      WriteFile ''/tmp/results/org1/repo1.git/stdout.json'' ''out'',
      WriteFile ''/tmp/results/org1/repo1.git/stderr.log'' ''err'',
      Log LevelDebug ''Lava scan results stored''
        [(''repository'', ''https://ghe.example/org1/repo1.git''),
         (''stdout'', ''/tmp/results/org1/repo1.git/stdout.json''),
         (''stderr'', ''/tmp/results/org1/repo1.git/stderr.log'')]] \<and>
   take 2 (nonempty_segments ''/org1/repo1.git'') = [''org1'', ''repo1.git''] \<and>
   storeResults (world_of (Exited 0) ''out'' (Inr []) ''/org1/'')
      (lava_defaults\<lparr>ResultsPath := ''/tmp/results/''\<rparr>)
      ''https://ghe.example/org1/'' ''out'' ''err'' =
     [Log LevelError ''failed to parse target''
        [(''target'', ''https://ghe.example/org1/''),
         (''error'', ''invalid GitHub URL path: /org1/'')]]"
proof -
  let ?cfg = "lava_defaults\<lparr>ResultsPath := ''/tmp/results/''\<rparr>"
  let ?w = "world_of (Exited 0) ''out'' (Inr []) ''/org1/repo1.git''"
  let ?w' = "world_of (Exited 0) ''out'' (Inr []) ''/org1/''"
  have good: "ResultsPath ?cfg \<noteq> [] \<and>
      url_Parse_Path ?w ''https://ghe.example/org1/repo1.git'' = Inr ''/org1/repo1.git'' \<and>
      Split (Trim ''/org1/repo1.git'' CHR ''/'') CHR ''/'' = ''org1'' # ''repo1.git'' # [] \<and>
      os_MkdirAll ?w (ResultsPath ?cfg @ ''org1'' @ ''/'' @ ''repo1.git'') = None \<and>
      os_WriteFile ?w (ResultsPath ?cfg @ ''org1'' @ ''/'' @ ''repo1.git'' @ ''/stdout.json'') ''out'' = None \<and>
      os_WriteFile ?w (ResultsPath ?cfg @ ''org1'' @ ''/'' @ ''repo1.git'' @ ''/stderr.log'') ''err'' = None"
    by (simp add: world_of_def Trim_def)
  have bad: "ResultsPath ?cfg \<noteq> [] \<and>
      url_Parse_Path ?w' ''https://ghe.example/org1/'' = Inr ''/org1/'' \<and>
      length (Split (Trim ''/org1/'' CHR ''/'') CHR ''/'') < 2"
    by (simp add: world_of_def Trim_def)
  have ne: "''repo1.git'' \<noteq> []" by simp
  from raw_results_do_not_change_summary
      [where w = ?w and cfg = ?cfg and repo = "''https://ghe.example/org1/repo1.git''"
         and path = "''/org1/repo1.git''" and org = "''org1''" and rp = "''repo1.git''"
         and rest = "[]" and out = "''out''" and err = "''err''"] good ne
  have 1: "storeResults ?w ?cfg ''https://ghe.example/org1/repo1.git'' ''out'' ''err'' =
        [MkdirAll (ResultsPath ?cfg @ ''org1'' @ ''/'' @ ''repo1.git''),
         WriteFile (ResultsPath ?cfg @ ''org1'' @ ''/'' @ ''repo1.git'' @ ''/stdout.json'') ''out'',
         WriteFile (ResultsPath ?cfg @ ''org1'' @ ''/'' @ ''repo1.git'' @ ''/stderr.log'') ''err'',
         Log LevelDebug ''Lava scan results stored''
           [(''repository'', ''https://ghe.example/org1/repo1.git''),
            (''stdout'', ResultsPath ?cfg @ ''org1'' @ ''/'' @ ''repo1.git'' @ ''/stdout.json''),
            (''stderr'', ResultsPath ?cfg @ ''org1'' @ ''/'' @ ''repo1.git'' @ ''/stderr.log'')]]"
    and 2: "take 2 (nonempty_segments ''/org1/repo1.git'') = [''org1'', ''repo1.git'']"
    by blast+
  from raw_results_do_not_change_summary
      [where w = ?w' and cfg = ?cfg and repo = "''https://ghe.example/org1/''"
         and path = "''/org1/''" and out = "''out''" and err = "''err''"] bad
  have 3: "storeResults ?w' ?cfg ''https://ghe.example/org1/'' ''out'' ''err'' =
        [Log LevelError ''failed to parse target''
           [(''target'', ''https://ghe.example/org1/''),
            (''error'', ''invalid GitHub URL path: '' @ ''/org1/'')]]"
    by blast
  from 1 2 3 show ?thesis by simp
qed

section \<open>Writing the output (package output)\<close>

text \<open>
  \<open>strings.ToLower\<close> on the bytes of a string: an ASCII capital becomes the small letter
  and every other byte stays. Go also maps capitals outside ASCII, to UTF-8 sequences of
  bytes above 127 or, for two of them, to \<open>k\<close> and \<open>i\<close>; neither letter occurs in
  \<open>csv\<close> or \<open>json\<close>, so the comparison of the result with these two words is the same.
\<close>

definition ToLower_byte :: "char \<Rightarrow> char" where
  "ToLower_byte c =
     (case map_of (zip ''ABCDEFGHIJKLMNOPQRSTUVWXYZ'' ''abcdefghijklmnopqrstuvwxyz'') c of
        Some l \<Rightarrow> l
      | None \<Rightarrow> c)"

definition ToLower :: "string \<Rightarrow> string" where
  "ToLower s = map ToLower_byte s"

text \<open>\<open>strconv.FormatBool\<close> and \<open>strconv.Itoa\<close>.\<close>

definition FormatBool :: "bool \<Rightarrow> string" where
  "FormatBool b = (if b then ''true'' else ''false'')"

fun digits :: "nat \<Rightarrow> string" where
  "digits n =
     (if n < 10 then [''0123456789'' ! n]
      else digits (n div 10) @ [''0123456789'' ! (n mod 10)])"

declare digits.simps [simp del]

definition Itoa :: "int \<Rightarrow> string" where
  "Itoa i = (if i < 0 then CHR ''-'' # digits (nat (- i)) else digits (nat i))"

text \<open>
  The errors of \<open>Write\<close>: its two own error values, and an error passed on from the file
  system, the CSV writer or the JSON encoder.
\<close>

datatype output_error = ErrOutputFileRequired | ErrUnsupportedFormat | PassedOn string

text \<open>
  What \<open>Write\<close> reaches outside itself, each giving \<open>Some\<close> error text or \<open>None\<close>:
  \<open>os.Create\<close> of a path, \<open>csv.Writer.Write\<close> of a record, and \<open>Encode\<close> of the
  summaries by the JSON encoder.
\<close>

record output_world =
  os_Create :: "string \<Rightarrow> string option"
  csv_Write :: "string list \<Rightarrow> string option"
  json_Encode :: "Summary list \<Rightarrow> string option"

text \<open>
  The calls \<open>Write\<close> makes, in order: the creation of the file, the records handed to the
  CSV writer, and the summaries handed to the JSON encoder with the prefix and the indent
  set by \<open>SetIndent\<close>.
\<close>

datatype output_event =
    Create string
  | CsvRecord "string list"
  | JsonEncode string string "Summary list"

definition csvHeader :: "string list" where
  "csvHeader = [''repository'', ''control_in_place'', ''number_of_controls'', ''controls'', ''error'']"

definition csvRow :: "Summary \<Rightarrow> string list" where
  "csvRow s =
     [Repository s, FormatBool (ControlInPlace s), Itoa (NumberOfControls s),
      Join (Controls s) ''#'', Error s]"

fun writeRows :: "output_world \<Rightarrow> Summary list \<Rightarrow> output_error option \<times> output_event list" where
  "writeRows w [] = (None, [])"
| "writeRows w (s # summary) =
     (case csv_Write w (csvRow s) of
        Some e \<Rightarrow> (Some (PassedOn e), [CsvRecord (csvRow s)])
      | None \<Rightarrow>
          (case writeRows w summary of (err, evs) \<Rightarrow> (err, CsvRecord (csvRow s) # evs)))"

definition Write ::
  "output_world \<Rightarrow> string \<Rightarrow> string \<Rightarrow> Summary list \<Rightarrow> output_error option \<times> output_event list" where
  "Write w format file summary =
     (if file = [] then (Some ErrOutputFileRequired, [])
      else
        (case os_Create w file of
           Some e \<Rightarrow> (Some (PassedOn e), [Create file])
         | None \<Rightarrow>
             (if ToLower format = ''csv'' then
                (case csv_Write w csvHeader of
                   Some e \<Rightarrow> (Some (PassedOn e), [Create file, CsvRecord csvHeader])
                 | None \<Rightarrow>
                     (case writeRows w summary of
                        (err, evs) \<Rightarrow> (err, Create file # CsvRecord csvHeader # evs)))
              else if ToLower format = ''json'' then
                (case json_Encode w summary of
                   Some e \<Rightarrow> (Some (PassedOn e), [Create file, JsonEncode [] ''  '' summary])
                 | None \<Rightarrow> (None, [Create file, JsonEncode [] ''  '' summary]))
              else (Some ErrUnsupportedFormat, [Create file]))))"

lemma writeRows_ok:
  "\<forall>r. csv_Write w r = None \<Longrightarrow>
   writeRows w summary = (None, map (\<lambda>s. CsvRecord (csvRow s)) summary)"
  by (induction summary) simp_all

text \<open>
  C8. With an empty file path \<open>Write\<close> returns the error for a missing output file and
  makes no call at all. With a path, and the file created, a format that is neither
  \<open>csv\<close> nor \<open>json\<close> (in any case of the letters) gives the error for an unsupported
  format, which is a different error; for \<open>csv\<close> the records written are the fixed
  header followed by one record per summary, in order, with the controls joined by
  \<open>#\<close>; for \<open>json\<close> the summaries are encoded as one value with a two-space indent.
\<close>

theorem Write_formats:
  "Write w format [] summary = (Some ErrOutputFileRequired, []) \<and>
   ErrOutputFileRequired \<noteq> ErrUnsupportedFormat \<and>
   (file \<noteq> [] \<and> os_Create w file = None \<and>
    ToLower format \<noteq> ''csv'' \<and> ToLower format \<noteq> ''json'' \<longrightarrow>
      Write w format file summary = (Some ErrUnsupportedFormat, [Create file])) \<and>
   (file \<noteq> [] \<and> os_Create w file = None \<and> ToLower format = ''csv'' \<and>
    (\<forall>r. csv_Write w r = None) \<longrightarrow>
      Write w format file summary =
        (None,
         Create file #
         CsvRecord [''repository'', ''control_in_place'', ''number_of_controls'', ''controls'', ''error''] #
         map (\<lambda>s. CsvRecord
                [Repository s, FormatBool (ControlInPlace s), Itoa (NumberOfControls s),
                 Join (Controls s) ''#'', Error s]) summary)) \<and>
   (file \<noteq> [] \<and> os_Create w file = None \<and> ToLower format = ''json'' \<and>
    json_Encode w summary = None \<longrightarrow>
      Write w format file summary = (None, [Create file, JsonEncode [] ''  '' summary]))"
proof (intro conjI impI)
  show "Write w format [] summary = (Some ErrOutputFileRequired, [])"
    by (simp add: Write_def)
  show "ErrOutputFileRequired \<noteq> ErrUnsupportedFormat"
    by simp
next
  assume "file \<noteq> [] \<and> os_Create w file = None \<and>
    ToLower format \<noteq> ''csv'' \<and> ToLower format \<noteq> ''json''"
  then show "Write w format file summary = (Some ErrUnsupportedFormat, [Create file])"
    by (simp add: Write_def)
next
  assume a: "file \<noteq> [] \<and> os_Create w file = None \<and> ToLower format = ''csv'' \<and>
    (\<forall>r. csv_Write w r = None)"
  then have "writeRows w summary = (None, map (\<lambda>s. CsvRecord (csvRow s)) summary)"
    by (simp add: writeRows_ok)
  with a show "Write w format file summary =
        (None,
         Create file #
         CsvRecord [''repository'', ''control_in_place'', ''number_of_controls'', ''controls'', ''error''] #
         map (\<lambda>s. CsvRecord
                [Repository s, FormatBool (ControlInPlace s), Itoa (NumberOfControls s),
                 Join (Controls s) ''#'', Error s]) summary)"
    by (simp add: Write_def csvHeader_def csvRow_def)
next
  assume "file \<noteq> [] \<and> os_Create w file = None \<and> ToLower format = ''json'' \<and>
    json_Encode w summary = None"
  then show "Write w format file summary = (None, [Create file, JsonEncode [] ''  '' summary])"
    by (simp add: Write_def)
qed

theorem Write_formats_witness:
  "Write \<lparr>os_Create = (\<lambda>p. None), csv_Write = (\<lambda>r. None), json_Encode = (\<lambda>s. None)\<rparr>
      ''CSV'' ''/tmp/reposec.csv'' [summary_of finding1] =
     (None,
      [Create ''/tmp/reposec.csv'',
       CsvRecord [''repository'', ''control_in_place'', ''number_of_controls'', ''controls'', ''error''],
       CsvRecord [''org1/repo1'', ''true'', ''2'', ''MFA#BranchProtection'', '''']]) \<and>
   Write \<lparr>os_Create = (\<lambda>p. None), csv_Write = (\<lambda>r. None), json_Encode = (\<lambda>s. None)\<rparr>
      ''Json'' ''/tmp/reposec.json'' [summary_of finding1] =
     (None, [Create ''/tmp/reposec.json'', JsonEncode [] ''  '' [summary_of finding1]]) \<and>
   Write \<lparr>os_Create = (\<lambda>p. None), csv_Write = (\<lambda>r. None), json_Encode = (\<lambda>s. None)\<rparr>
      ''yaml'' ''/tmp/reposec.yaml'' [summary_of finding1] =
     (Some ErrUnsupportedFormat, [Create ''/tmp/reposec.yaml''])"
proof -
  let ?w = "\<lparr>os_Create = (\<lambda>p. None), csv_Write = (\<lambda>r. None), json_Encode = (\<lambda>s. None)\<rparr>"
  have csv: "''/tmp/reposec.csv'' \<noteq> [] \<and> os_Create ?w ''/tmp/reposec.csv'' = None \<and>
      ToLower ''CSV'' = ''csv'' \<and> (\<forall>r. csv_Write ?w r = None)"
    by (simp add: ToLower_def ToLower_byte_def)
  have json: "''/tmp/reposec.json'' \<noteq> [] \<and> os_Create ?w ''/tmp/reposec.json'' = None \<and>
      ToLower ''Json'' = ''json'' \<and> json_Encode ?w [summary_of finding1] = None"
    by (simp add: ToLower_def ToLower_byte_def)
  have yaml: "''/tmp/reposec.yaml'' \<noteq> [] \<and> os_Create ?w ''/tmp/reposec.yaml'' = None \<and>
      ToLower ''yaml'' \<noteq> ''csv'' \<and> ToLower ''yaml'' \<noteq> ''json''"
    by (simp add: ToLower_def ToLower_byte_def)
  have row: "[Repository (summary_of finding1), FormatBool (ControlInPlace (summary_of finding1)),
      Itoa (NumberOfControls (summary_of finding1)), Join (Controls (summary_of finding1)) ''#'',
      Error (summary_of finding1)] = [''org1/repo1'', ''true'', ''2'', ''MFA#BranchProtection'', '''']"
    by (simp add: summary_of_def controls_of_def finding1_def List.map_filter_simps
        FormatBool_def Itoa_def digits.simps)
  from Write_formats
      [where w = ?w and format = "''CSV''" and ?file = "''/tmp/reposec.csv''"
         and summary = "[summary_of finding1]"] csv
  have 1: "Write ?w ''CSV'' ''/tmp/reposec.csv'' [summary_of finding1] =
        (None,
         Create ''/tmp/reposec.csv'' #
         CsvRecord [''repository'', ''control_in_place'', ''number_of_controls'', ''controls'', ''error''] #
         map (\<lambda>s. CsvRecord
                [Repository s, FormatBool (ControlInPlace s), Itoa (NumberOfControls s),
                 Join (Controls s) ''#'', Error s]) [summary_of finding1])"
    by blast
  from Write_formats
      [where w = ?w and format = "''Json''" and ?file = "''/tmp/reposec.json''"
         and summary = "[summary_of finding1]"] json
  have 2: "Write ?w ''Json'' ''/tmp/reposec.json'' [summary_of finding1] =
        (None, [Create ''/tmp/reposec.json'', JsonEncode [] ''  '' [summary_of finding1]])"
    by blast
  from Write_formats
      [where w = ?w and format = "''yaml''" and ?file = "''/tmp/reposec.yaml''"
         and summary = "[summary_of finding1]"] yaml
  have 3: "Write ?w ''yaml'' ''/tmp/reposec.yaml'' [summary_of finding1] =
        (Some ErrUnsupportedFormat, [Create ''/tmp/reposec.yaml''])"
    by blast
  from 1 row have first: "Write ?w ''CSV'' ''/tmp/reposec.csv'' [summary_of finding1] =
     (None,
      [Create ''/tmp/reposec.csv'',
       CsvRecord [''repository'', ''control_in_place'', ''number_of_controls'', ''controls'', ''error''],
       CsvRecord [''org1/repo1'', ''true'', ''2'', ''MFA#BranchProtection'', '''']])"
    by simp
  from first 2 3 show ?thesis by blast
qed

end
